theory Spec2Isabelle
  imports Main
begin

section \<open>JavaScript values\<close>

text \<open>
  The handlers read JSON request bodies, rows returned by the database driver and the
  decoded token payload. All of them are JavaScript values. Numbers are kept as
  integers (the ids and counts the handlers touch are integers), strings as lists of
  characters, objects as association lists from property names to values.
\<close>

datatype jsval =
    JUndefined
  | JNull
  | JBool bool
  | JNum int
  | JStr string
  | JObj "(string \<times> jsval) list"
  | JArr "jsval list"

type_synonym obj = "(string \<times> jsval) list"

text \<open>What a \<^verbatim>\<open>try\<close> block can catch: a \<^verbatim>\<open>TypeError\<close> raised by the
  language itself, or an error thrown by a collaborator (database driver, bcrypt, the
  token utility) carrying its raw detail.\<close>

datatype js_error = TypeError string | Thrown string

text \<open>Property read \<^verbatim>\<open>o.k\<close> on an object: a missing property is \<^verbatim>\<open>undefined\<close>.\<close>

definition get_prop :: "obj \<Rightarrow> string \<Rightarrow> jsval" where
  "get_prop ob k = (case map_of ob k of None \<Rightarrow> JUndefined | Some v \<Rightarrow> v)"

text \<open>Truthiness, as used by \<^verbatim>\<open>!x\<close>.\<close>

fun truthy :: "jsval \<Rightarrow> bool" where
  "truthy JUndefined = False"
| "truthy JNull = False"
| "truthy (JBool b) = b"
| "truthy (JNum n) = (n \<noteq> 0)"
| "truthy (JStr s) = (s \<noteq> [])"
| "truthy (JObj ob) = True"
| "truthy (JArr xs) = True"

text \<open>Strict equality \<^verbatim>\<open>===\<close>: primitives are equal when they have the same type
  and the same value; nothing is converted. Two objects (or arrays) that come from
  different places, as a database row and a decoded token do, are different references
  and never strictly equal.\<close>

fun strict_eq :: "jsval \<Rightarrow> jsval \<Rightarrow> bool" where
  "strict_eq JUndefined JUndefined = True"
| "strict_eq JNull JNull = True"
| "strict_eq (JBool a) (JBool b) = (a = b)"
| "strict_eq (JNum a) (JNum b) = (a = b)"
| "strict_eq (JStr a) (JStr b) = (a = b)"
| "strict_eq _ _ = False"

text \<open>Destructuring \<^verbatim>\<open>const { a, b } = v\<close>: throws on \<^verbatim>\<open>undefined\<close> and
  \<^verbatim>\<open>null\<close>; on an object it reads the properties; on any other value the named
  properties are \<^verbatim>\<open>undefined\<close>.\<close>

fun destructure :: "jsval \<Rightarrow> js_error + obj" where
  "destructure JUndefined = Inl (TypeError ''Cannot destructure undefined'')"
| "destructure JNull = Inl (TypeError ''Cannot destructure null'')"
| "destructure (JObj ob) = Inr ob"
| "destructure _ = Inr []"

text \<open>Member read \<^verbatim>\<open>v.k\<close> on an arbitrary value, for the property names the
  handlers read from \<^verbatim>\<open>req.user\<close>.\<close>

fun member :: "jsval \<Rightarrow> string \<Rightarrow> js_error + jsval" where
  "member JUndefined k = Inl (TypeError ''Cannot read properties of undefined'')"
| "member JNull k = Inl (TypeError ''Cannot read properties of null'')"
| "member (JObj ob) k = Inr (get_prop ob k)"
| "member _ k = Inr JUndefined"

text \<open>\<^verbatim>\<open>content.substring(0, 150) + "..."\<close>: only strings have the method; on any
  other (truthy) value the call throws.\<close>

fun summarize :: "jsval \<Rightarrow> js_error + jsval" where
  "summarize (JStr c) = Inr (JStr (take 150 c @ ''...''))"
| "summarize _ = Inl (TypeError ''content.substring is not a function'')"

section \<open>Requests and responses\<close>

record request =
  body :: jsval
  params_id :: jsval
  authorization :: jsval
  user :: jsval

record response =
  status :: nat
  json :: obj

text \<open>\<^verbatim>\<open>res.status(c).json(o)\<close>: serialisation drops properties whose value is
  \<^verbatim>\<open>undefined\<close>.\<close>

definition respond :: "nat \<Rightarrow> obj \<Rightarrow> response" where
  "respond c ob = \<lparr>status = c, json = filter (\<lambda>kv. snd kv \<noteq> JUndefined) ob\<rparr>"

definition failure :: "nat \<Rightarrow> string \<Rightarrow> response" where
  "failure c msg = respond c [(''success'', JBool False), (''message'', JStr msg)]"

definition server_error :: response where
  "server_error = failure 500 ''Server error''"

section \<open>The database\<close>

text \<open>
  Two tables, \<^verbatim>\<open>users\<close> and \<^verbatim>\<open>articles\<close>, each a list of rows; a row is the object
  the driver returns for it. The counters are the \<^verbatim>\<open>AUTO_INCREMENT\<close> values of the
  two primary keys and \<open>clock\<close> is the server's \<^verbatim>\<open>CURRENT_TIMESTAMP\<close>. A row has
  the columns the statements name and \<^verbatim>\<open>created_at\<close>, by which the list of articles is
  ordered; the \<^verbatim>\<open>updated_at\<close> stamp, which the server keeps by itself, is left out.
\<close>

record store =
  users :: "obj list"
  articles :: "obj list"
  users_auto :: int
  articles_auto :: int
  clock :: int

text \<open>The statements of the controllers and of the ownership middleware, one
  constructor per SQL text, with the bound parameters in the order of the source.\<close>

datatype select_stmt =
    UserIdByEmail jsval
      \<comment> \<open>\<^verbatim>\<open>SELECT id FROM users WHERE email = ?\<close>\<close>
  | UserByEmail jsval
      \<comment> \<open>\<^verbatim>\<open>SELECT * FROM users WHERE email = ?\<close>\<close>
  | AuthorIdOfArticle jsval
      \<comment> \<open>\<^verbatim>\<open>SELECT author_id FROM articles WHERE id = ?\<close>\<close>
  | AllArticles
      \<comment> \<open>\<^verbatim>\<open>SELECT a.*, u.username FROM articles a JOIN users u ON a.author_id = u.id
          ORDER BY a.created_at DESC\<close>\<close>
  | ArticleById jsval
      \<comment> \<open>\<^verbatim>\<open>SELECT a.*, u.username, u.email FROM articles a
          JOIN users u ON a.author_id = u.id WHERE a.id = ?\<close>\<close>

datatype exec_stmt =
    InsertIntoUsers jsval jsval jsval
      \<comment> \<open>\<^verbatim>\<open>INSERT INTO users (username, email, password) VALUES (?, ?, ?)\<close>\<close>
  | InsertIntoArticles jsval jsval jsval jsval jsval jsval
      \<comment> \<open>\<^verbatim>\<open>INSERT INTO articles (title, content, summary, category, tags, author_id)
          VALUES (?, ?, ?, ?, ?, ?)\<close>\<close>
  | UpdateArticles jsval jsval jsval jsval jsval jsval
      \<comment> \<open>\<^verbatim>\<open>UPDATE articles SET title = ?, content = ?, summary = ?, category = ?, tags = ?
          WHERE id = ?\<close>\<close>
  | DeleteFromArticles jsval
      \<comment> \<open>\<^verbatim>\<open>DELETE FROM articles WHERE id = ?\<close>\<close>

text \<open>The result header of a statement that is not a query.\<close>

record header =
  insertId :: int
  affectedRows :: nat

text \<open>A bound parameter that is \<^verbatim>\<open>undefined\<close> is sent as SQL \<^verbatim>\<open>NULL\<close>.\<close>

fun sql_bind :: "jsval \<Rightarrow> jsval" where
  "sql_bind JUndefined = JNull"
| "sql_bind v = v"

definition project :: "string list \<Rightarrow> obj \<Rightarrow> obj" where
  "project cols r = map (\<lambda>c. (c, get_prop r c)) cols"

text \<open>\<^verbatim>\<open>SET c = v\<close> on one row: the named column gets the value, every other column
  stays.\<close>

definition set_col :: "string \<Rightarrow> jsval \<Rightarrow> obj \<Rightarrow> obj" where
  "set_col c v r = map (\<lambda>kv. if fst kv = c then (c, v) else kv) r"

fun num_of :: "jsval \<Rightarrow> int" where
  "num_of (JNum n) = n"
| "num_of _ = 0"

text \<open>The inner join of the two read statements: an article row is extended by the
  named columns of every user whose id is the article's \<^verbatim>\<open>author_id\<close> (a
  \<^verbatim>\<open>NULL\<close> equals nothing). The driver builds one object per result row, so a
  column of the article with one of these names would be overwritten.\<close>

definition join_author :: "string list \<Rightarrow> obj list \<Rightarrow> obj list \<Rightarrow> obj list" where
  "join_author cols us as =
     concat (map (\<lambda>a. map (\<lambda>u. filter (\<lambda>kv. fst kv \<notin> set cols) a @ project cols u)
                        (filter (\<lambda>u. get_prop u ''id'' = get_prop a ''author_id''
                                      \<and> get_prop u ''id'' \<noteq> JNull) us)) as)"

text \<open>
  The meaning of the queries. How the server compares a column with a bound parameter
  (numeric conversion of a path segment, the collation of a text column) is the
  parameter \<open>eqf\<close>: column value first, parameter second.
\<close>

fun run_select :: "(jsval \<Rightarrow> jsval \<Rightarrow> bool) \<Rightarrow> select_stmt \<Rightarrow> store \<Rightarrow> obj list" where
  "run_select eqf (UserIdByEmail email) s =
     map (project [''id''])
       (filter (\<lambda>u. eqf (get_prop u ''email'') (sql_bind email)) (users s))"
| "run_select eqf (UserByEmail email) s =
     filter (\<lambda>u. eqf (get_prop u ''email'') (sql_bind email)) (users s)"
| "run_select eqf (AuthorIdOfArticle aid) s =
     map (project [''author_id''])
       (filter (\<lambda>a. eqf (get_prop a ''id'') (sql_bind aid)) (articles s))"
| "run_select eqf AllArticles s =
     rev (sort_key (\<lambda>r. num_of (get_prop r ''created_at''))
            (join_author [''username''] (users s) (articles s)))"
| "run_select eqf (ArticleById aid) s =
     join_author [''username'', ''email''] (users s)
       (filter (\<lambda>a. eqf (get_prop a ''id'') (sql_bind aid)) (articles s))"

text \<open>The meaning of the other statements: the header and the new tables.\<close>

fun run_exec :: "(jsval \<Rightarrow> jsval \<Rightarrow> bool) \<Rightarrow> exec_stmt \<Rightarrow> store \<Rightarrow> header \<times> store" where
  "run_exec eqf (InsertIntoUsers username email password) s =
     (\<lparr>insertId = users_auto s, affectedRows = 1\<rparr>,
      s\<lparr>users := users s @
           [[(''id'', JNum (users_auto s)),
             (''username'', sql_bind username),
             (''email'', sql_bind email),
             (''password'', sql_bind password),
             (''created_at'', JNum (clock s))]],
        users_auto := users_auto s + 1\<rparr>)"
| "run_exec eqf (InsertIntoArticles title content summary category tags author) s =
     (\<lparr>insertId = articles_auto s, affectedRows = 1\<rparr>,
      s\<lparr>articles := articles s @
           [[(''id'', JNum (articles_auto s)),
             (''author_id'', sql_bind author),
             (''title'', sql_bind title),
             (''content'', sql_bind content),
             (''category'', sql_bind category),
             (''tags'', sql_bind tags),
             (''summary'', sql_bind summary),
             (''created_at'', JNum (clock s))]],
        articles_auto := articles_auto s + 1\<rparr>)"
| "run_exec eqf (UpdateArticles title content summary category tags aid) s =
     (\<lparr>insertId = 0,
       affectedRows = length (filter (\<lambda>a. eqf (get_prop a ''id'') (sql_bind aid)) (articles s))\<rparr>,
      s\<lparr>articles :=
           map (\<lambda>a. if eqf (get_prop a ''id'') (sql_bind aid)
                     then (set_col ''title'' (sql_bind title)
                           \<circ> set_col ''content'' (sql_bind content)
                           \<circ> set_col ''summary'' (sql_bind summary)
                           \<circ> set_col ''category'' (sql_bind category)
                           \<circ> set_col ''tags'' (sql_bind tags)) a
                     else a)
             (articles s)\<rparr>)"
| "run_exec eqf (DeleteFromArticles aid) s =
     (\<lparr>insertId = 0,
       affectedRows = length (filter (\<lambda>a. eqf (get_prop a ''id'') (sql_bind aid)) (articles s))\<rparr>,
      s\<lparr>articles := filter (\<lambda>a. \<not> eqf (get_prop a ''id'') (sql_bind aid)) (articles s)\<rparr>)"

section \<open>Collaborators\<close>

text \<open>
  What the handlers call and do not define: the database driver, bcrypt, the token
  utility, and the authentication middleware (which either answers the request itself,
  \<open>Inl\<close>, or passes it on with \<^verbatim>\<open>req.user\<close> attached, \<open>Inr\<close>). A statement
  either throws (connection lost, a constraint of the schema violated; the fault
  functions say when, and with which detail) or runs as above and leaves the tables as
  \<open>run_exec\<close> says. A statement that throws changes nothing.
\<close>

record env =
  sql_eq :: "jsval \<Rightarrow> jsval \<Rightarrow> bool"
  select_fault :: "select_stmt \<Rightarrow> store \<Rightarrow> string option"
  exec_fault :: "exec_stmt \<Rightarrow> store \<Rightarrow> string option"
  bcrypt_hash :: "jsval \<Rightarrow> nat \<Rightarrow> js_error + jsval"
  bcrypt_compare :: "jsval \<Rightarrow> jsval \<Rightarrow> js_error + bool"
  generateToken :: "jsval \<Rightarrow> js_error + jsval"
  verifyJWT :: "request \<Rightarrow> response + request"

definition db_select :: "env \<Rightarrow> select_stmt \<Rightarrow> store \<Rightarrow> js_error + obj list" where
  "db_select e q s =
     (case select_fault e q s of
        Some d \<Rightarrow> Inl (Thrown d)
      | None \<Rightarrow> Inr (run_select (sql_eq e) q s))"

definition db_exec :: "env \<Rightarrow> exec_stmt \<Rightarrow> store \<Rightarrow> js_error + (header \<times> store)" where
  "db_exec e q s =
     (case exec_fault e q s of
        Some d \<Rightarrow> Inl (Thrown d)
      | None \<Rightarrow> Inr (run_exec (sql_eq e) q s))"

section \<open>Controllers\<close>

text \<open>
  Every handler is one \<^verbatim>\<open>try\<close> block and one \<^verbatim>\<open>catch\<close>. The block is modelled
  as a function that returns either the error it threw or the response it sent, with the
  tables as they are at that point; the \<^verbatim>\<open>catch\<close> turns any error into the same
  response. (It also prints the error on the server's console, which is no part of the
  response.)
\<close>

definition catch_500 :: "(js_error + response) \<times> store \<Rightarrow> response \<times> store" where
  "catch_500 r = (case r of (Inl x, s) \<Rightarrow> (server_error, s) | (Inr resp, s) \<Rightarrow> (resp, s))"

subsection \<open>authController.js\<close>

definition signup_try :: "env \<Rightarrow> request \<Rightarrow> store \<Rightarrow> (js_error + response) \<times> store" where
  "signup_try e req s =
     (case destructure (body req) of
        Inl x \<Rightarrow> (Inl x, s)
      | Inr b \<Rightarrow>
          let username = get_prop b ''username'';
              email = get_prop b ''email'';
              password = get_prop b ''password''
          in if \<not> truthy username \<or> \<not> truthy email \<or> \<not> truthy password
             then (Inr (failure 400 ''All fields are required''), s)
             else (case db_select e (UserIdByEmail email) s of
                Inl x \<Rightarrow> (Inl x, s)
              | Inr existingUser \<Rightarrow>
                  if length existingUser > 0
                  then (Inr (failure 400 ''Email already registered''), s)
                  else (case bcrypt_hash e password 10 of
                     Inl x \<Rightarrow> (Inl x, s)
                   | Inr hashedPassword \<Rightarrow>
                       (case db_exec e (InsertIntoUsers username email hashedPassword) s of
                          Inl x \<Rightarrow> (Inl x, s)
                        | Inr (result, s') \<Rightarrow>
                            (case generateToken e
                                    (JObj [(''id'', JNum (insertId result)), (''email'', email)]) of
                               Inl x \<Rightarrow> (Inl x, s')
                             | Inr token \<Rightarrow>
                                 (Inr (respond 201
                                    [(''success'', JBool True),
                                     (''message'', JStr ''User registered successfully''),
                                     (''token'', token)]), s'))))))"

definition signup :: "env \<Rightarrow> request \<Rightarrow> store \<Rightarrow> response \<times> store" where
  "signup e req s = catch_500 (signup_try e req s)"

definition login_try :: "env \<Rightarrow> request \<Rightarrow> store \<Rightarrow> (js_error + response) \<times> store" where
  "login_try e req s =
     (case destructure (body req) of
        Inl x \<Rightarrow> (Inl x, s)
      | Inr b \<Rightarrow>
          let email = get_prop b ''email'';
              password = get_prop b ''password''
          in if \<not> truthy email \<or> \<not> truthy password
             then (Inr (failure 400 ''Email and password are required''), s)
             else (case db_select e (UserByEmail email) s of
                Inl x \<Rightarrow> (Inl x, s)
              | Inr [] \<Rightarrow> (Inr (failure 400 ''Invalid credentials''), s)
              | Inr (u # rest) \<Rightarrow>
                  (case bcrypt_compare e password (get_prop u ''password'') of
                     Inl x \<Rightarrow> (Inl x, s)
                   | Inr isMatch \<Rightarrow>
                       if \<not> isMatch
                       then (Inr (failure 400 ''Invalid credentials''), s)
                       else (case generateToken e (JObj u) of
                          Inl x \<Rightarrow> (Inl x, s)
                        | Inr token \<Rightarrow>
                            (Inr (respond 200
                               [(''success'', JBool True),
                                (''message'', JStr ''Login successful''),
                                (''token'', token)]), s)))))"

definition login :: "env \<Rightarrow> request \<Rightarrow> store \<Rightarrow> response \<times> store" where
  "login e req s = catch_500 (login_try e req s)"

subsection \<open>articleController.js\<close>

definition createArticle_try :: "env \<Rightarrow> request \<Rightarrow> store \<Rightarrow> (js_error + response) \<times> store" where
  "createArticle_try e req s =
     (case destructure (body req) of
        Inl x \<Rightarrow> (Inl x, s)
      | Inr b \<Rightarrow>
          let title = get_prop b ''title'';
              content = get_prop b ''content'';
              category = get_prop b ''category'';
              tags = get_prop b ''tags''
          in if \<not> truthy title \<or> \<not> truthy content \<or> \<not> truthy category
             then (Inr (failure 400 ''Title, content and category are required''), s)
             else (case summarize content of
                Inl x \<Rightarrow> (Inl x, s)
              | Inr summary \<Rightarrow>
                  (case member (user req) ''id'' of
                     Inl x \<Rightarrow> (Inl x, s)
                   | Inr uid \<Rightarrow>
                       (case db_exec e (InsertIntoArticles title content summary category tags uid) s of
                          Inl x \<Rightarrow> (Inl x, s)
                        | Inr (result, s') \<Rightarrow>
                            (Inr (respond 201
                               [(''success'', JBool True),
                                (''message'', JStr ''Article created successfully''),
                                (''articleId'', JNum (insertId result))]), s')))))"

definition createArticle :: "env \<Rightarrow> request \<Rightarrow> store \<Rightarrow> response \<times> store" where
  "createArticle e req s = catch_500 (createArticle_try e req s)"

definition getAllArticles_try :: "env \<Rightarrow> request \<Rightarrow> store \<Rightarrow> (js_error + response) \<times> store" where
  "getAllArticles_try e req s =
     (case db_select e AllArticles s of
        Inl x \<Rightarrow> (Inl x, s)
      | Inr rows \<Rightarrow>
          (Inr (respond 200
             [(''success'', JBool True),
              (''count'', JNum (int (length rows))),
              (''data'', JArr (map JObj rows))]), s))"

definition getAllArticles :: "env \<Rightarrow> request \<Rightarrow> store \<Rightarrow> response \<times> store" where
  "getAllArticles e req s = catch_500 (getAllArticles_try e req s)"

definition getArticleById_try :: "env \<Rightarrow> request \<Rightarrow> store \<Rightarrow> (js_error + response) \<times> store" where
  "getArticleById_try e req s =
     (let articleId = params_id req
      in case db_select e (ArticleById articleId) s of
           Inl x \<Rightarrow> (Inl x, s)
         | Inr [] \<Rightarrow> (Inr (failure 404 ''Article not found''), s)
         | Inr (r # rest) \<Rightarrow>
             (Inr (respond 200 [(''success'', JBool True), (''data'', JObj r)]), s))"

definition getArticleById :: "env \<Rightarrow> request \<Rightarrow> store \<Rightarrow> response \<times> store" where
  "getArticleById e req s = catch_500 (getArticleById_try e req s)"

definition updateArticle_try :: "env \<Rightarrow> request \<Rightarrow> store \<Rightarrow> (js_error + response) \<times> store" where
  "updateArticle_try e req s =
     (let articleId = params_id req
      in case destructure (body req) of
        Inl x \<Rightarrow> (Inl x, s)
      | Inr b \<Rightarrow>
          let title = get_prop b ''title'';
              content = get_prop b ''content'';
              category = get_prop b ''category'';
              tags = get_prop b ''tags''
          in if \<not> truthy title \<or> \<not> truthy content \<or> \<not> truthy category
             then (Inr (failure 400 ''Title, content and category are required''), s)
             else (case summarize content of
                Inl x \<Rightarrow> (Inl x, s)
              | Inr summary \<Rightarrow>
                  (case db_exec e (UpdateArticles title content summary category tags articleId) s of
                     Inl x \<Rightarrow> (Inl x, s)
                   | Inr (result, s') \<Rightarrow>
                       (Inr (respond 200
                          [(''success'', JBool True),
                           (''message'', JStr ''Article updated successfully'')]), s'))))"

definition updateArticle :: "env \<Rightarrow> request \<Rightarrow> store \<Rightarrow> response \<times> store" where
  "updateArticle e req s = catch_500 (updateArticle_try e req s)"

definition deleteArticle_try :: "env \<Rightarrow> request \<Rightarrow> store \<Rightarrow> (js_error + response) \<times> store" where
  "deleteArticle_try e req s =
     (let articleId = params_id req
      in case db_exec e (DeleteFromArticles articleId) s of
           Inl x \<Rightarrow> (Inl x, s)
         | Inr (result, s') \<Rightarrow>
             (Inr (respond 200
                [(''success'', JBool True),
                 (''message'', JStr ''Article deleted successfully'')]), s'))"

definition deleteArticle :: "env \<Rightarrow> request \<Rightarrow> store \<Rightarrow> response \<times> store" where
  "deleteArticle e req s = catch_500 (deleteArticle_try e req s)"

section \<open>The ownership middleware\<close>

text \<open>A middleware either sends a response or calls \<^verbatim>\<open>next()\<close>. The ownership
  check only reads the tables.\<close>

datatype outcome = Sent response | Next

definition checkOwnership_try :: "env \<Rightarrow> request \<Rightarrow> store \<Rightarrow> js_error + outcome" where
  "checkOwnership_try e req s =
     (let articleId = params_id req
      in case db_select e (AuthorIdOfArticle articleId) s of
           Inl x \<Rightarrow> Inl x
         | Inr [] \<Rightarrow> Inr (Sent (failure 404 ''Article not found''))
         | Inr (r # rest) \<Rightarrow>
             (case member (user req) ''id'' of
                Inl x \<Rightarrow> Inl x
              | Inr uid \<Rightarrow>
                  if \<not> strict_eq (get_prop r ''author_id'') uid
                  then Inr (Sent (failure 403 ''Forbidden: You are not the author''))
                  else Inr Next))"

definition checkOwnership :: "env \<Rightarrow> request \<Rightarrow> store \<Rightarrow> outcome" where
  "checkOwnership e req s =
     (case checkOwnership_try e req s of Inl x \<Rightarrow> Sent server_error | Inr out \<Rightarrow> out)"

section \<open>articleRoutes.js\<close>

datatype http_method = GET | POST | PUT | DELETE

datatype route_path = Root | ById

datatype middleware = VerifyJWT | CheckOwnership

datatype controller =
  CreateArticle | GetAllArticles | GetArticleById | UpdateArticle | DeleteArticle

definition router :: "(http_method \<times> route_path \<times> middleware list \<times> controller) list" where
  "router =
     [(POST, Root, [VerifyJWT], CreateArticle),
      (GET, Root, [], GetAllArticles),
      (GET, ById, [], GetArticleById),
      (PUT, ById, [VerifyJWT, CheckOwnership], UpdateArticle),
      (DELETE, ById, [VerifyJWT, CheckOwnership], DeleteArticle)]"

fun run_middleware :: "env \<Rightarrow> middleware \<Rightarrow> request \<Rightarrow> store \<Rightarrow> response + request" where
  "run_middleware e VerifyJWT req s = verifyJWT e req"
| "run_middleware e CheckOwnership req s =
     (case checkOwnership e req s of Sent r \<Rightarrow> Inl r | Next \<Rightarrow> Inr req)"

fun run_chain :: "env \<Rightarrow> middleware list \<Rightarrow> request \<Rightarrow> store \<Rightarrow> response + request" where
  "run_chain e [] req s = Inr req"
| "run_chain e (m # ms) req s =
     (case run_middleware e m req s of Inl r \<Rightarrow> Inl r | Inr req' \<Rightarrow> run_chain e ms req' s)"

fun run_controller :: "env \<Rightarrow> controller \<Rightarrow> request \<Rightarrow> store \<Rightarrow> response \<times> store" where
  "run_controller e CreateArticle req s = createArticle e req s"
| "run_controller e GetAllArticles req s = getAllArticles e req s"
| "run_controller e GetArticleById req s = getArticleById e req s"
| "run_controller e UpdateArticle req s = updateArticle e req s"
| "run_controller e DeleteArticle req s = deleteArticle e req s"

text \<open>The first route with the method and the path runs: its middlewares in order, then
  its controller unless a middleware has answered. \<open>None\<close>: no route of this router.\<close>

definition dispatch ::
  "env \<Rightarrow> http_method \<Rightarrow> route_path \<Rightarrow> request \<Rightarrow> store \<Rightarrow> (response \<times> store) option" where
  "dispatch e m p req s =
     (case find (\<lambda>rt. fst rt = m \<and> fst (snd rt) = p) router of
        None \<Rightarrow> None
      | Some rt \<Rightarrow>
          Some (case run_chain e (fst (snd (snd rt))) req s of
                  Inl r \<Rightarrow> (r, s)
                | Inr req' \<Rightarrow> run_controller e (snd (snd (snd rt))) req' s))"

section \<open>Tokens\<close>

text \<open>
  Modelled from the spec: \<^verbatim>\<open>utils/generateToken.js\<close> and
  \<^verbatim>\<open>middleware/verifyJWT.js\<close> are not among the sources. The spec's Token
  Issuer/Verifier signs the claim set \<^verbatim>\<open>{id, email, issuedAt, expiresAt}\<close> derived from
  the object it is given, with a process-wide secret and a configured expiry duration;
  verification fails as \<open>Malformed\<close> when the signature does not match and as
  \<open>Expired\<close> at or after the expiry time. The token is kept as its decoded structure
  (claims and signature), not as the encoded text; the signature function is the
  parameter \<open>mac\<close>.
\<close>

record token_config =
  secret :: string
  expiry :: int
  mac :: "string \<Rightarrow> obj \<Rightarrow> string"

datatype auth_error = Malformed | Expired

definition issue :: "token_config \<Rightarrow> int \<Rightarrow> jsval \<Rightarrow> js_error + jsval" where
  "issue cfg now payload =
     (case member payload ''id'' of
        Inl x \<Rightarrow> Inl x
      | Inr i \<Rightarrow>
          (case member payload ''email'' of
             Inl x \<Rightarrow> Inl x
           | Inr em \<Rightarrow>
               let claims = [(''id'', i), (''email'', em),
                             (''issuedAt'', JNum now), (''expiresAt'', JNum (now + expiry cfg))]
               in Inr (JObj [(''claims'', JObj claims),
                             (''signature'', JStr (mac cfg (secret cfg) claims))])))"

fun verify :: "token_config \<Rightarrow> int \<Rightarrow> jsval \<Rightarrow> auth_error + obj" where
  "verify cfg now (JObj t) =
     (case (get_prop t ''claims'', get_prop t ''signature'') of
        (JObj claims, JStr sg) \<Rightarrow>
          if sg \<noteq> mac cfg (secret cfg) claims then Inl Malformed
          else if num_of (get_prop claims ''expiresAt'') \<le> now then Inl Expired
          else Inr claims
      | _ \<Rightarrow> Inl Malformed)"
| "verify cfg now _ = Inl Malformed"

text \<open>
  Modelled from the spec: the Authentication Gate takes the bearer token from the
  authorization header (here the header holds the token itself), fails with 401 when it
  is absent or does not verify, and otherwise attaches the decoded \<^verbatim>\<open>{id, email}\<close> as
  the actor. The spec does not fix the text of the 401 message.
\<close>

definition verifyJWT_spec :: "token_config \<Rightarrow> int \<Rightarrow> request \<Rightarrow> response + request" where
  "verifyJWT_spec cfg now req =
     (case verify cfg now (authorization req) of
        Inl x \<Rightarrow> Inl (failure 401 ''Unauthorized'')
      | Inr claims \<Rightarrow> Inr (req\<lparr>user := JObj (project [''id'', ''email''] claims)\<rparr>))"

section \<open>Vocabulary of the properties\<close>

text \<open>A value that is not an object or an array.\<close>

fun is_primitive :: "jsval \<Rightarrow> bool" where
  "is_primitive (JObj ob) = False"
| "is_primitive (JArr xs) = False"
| "is_primitive _ = True"



text \<open>The shape \<^verbatim>\<open>{success: false, message}\<close> of an error response.\<close>

definition error_shape :: "response \<Rightarrow> bool" where
  "error_shape r =
     (case json r of
        [(k1, JBool False), (k2, JStr m)] \<Rightarrow> k1 = ''success'' \<and> k2 = ''message''
      | _ \<Rightarrow> False)"

text \<open>The word \<open>w\<close> occurs in the text \<open>t\<close>.\<close>

fun occurs_in :: "string \<Rightarrow> string \<Rightarrow> bool" where
  "occurs_in w [] = (w = [])"
| "occurs_in w (c # cs) = (take (length w) (c # cs) = w \<or> occurs_in w cs)"

text \<open>The message of a response names the email as the field in conflict.\<close>

definition names_email :: "response \<Rightarrow> bool" where
  "names_email r =
     (case get_prop (json r) ''message'' of
        JStr m \<Rightarrow> occurs_in ''Email'' m \<or> occurs_in ''email'' m
      | _ \<Rightarrow> False)"

section \<open>A concrete deployment\<close>

text \<open>
  One instance of the collaborators, for running the handlers on examples. The server
  compares an integer column with a text parameter by reading the text as a decimal
  number; everything else is compared as it is.
\<close>

definition digit :: "char \<Rightarrow> int option" where
  "digit c = map_of (zip ''0123456789'' [0, 1, 2, 3, 4, 5, 6, 7, 8, 9]) c"

fun decimal :: "int \<Rightarrow> string \<Rightarrow> int option" where
  "decimal acc [] = Some acc"
| "decimal acc (c # cs) =
     (case digit c of None \<Rightarrow> None | Some d \<Rightarrow> decimal (10 * acc + d) cs)"

fun decimal_eq :: "jsval \<Rightarrow> jsval \<Rightarrow> bool" where
  "decimal_eq (JNum n) (JStr (c # cs)) = (decimal 0 (c # cs) = Some n)"
| "decimal_eq v w = (v = w)"

text \<open>bcrypt takes strings only: with any other argument the call throws.\<close>

fun demo_hash :: "jsval \<Rightarrow> nat \<Rightarrow> js_error + jsval" where
  "demo_hash (JStr p) cost = Inr (JStr (''h:'' @ p))"
| "demo_hash _ cost = Inl (Thrown ''data must be a string'')"

fun demo_compare :: "jsval \<Rightarrow> jsval \<Rightarrow> js_error + bool" where
  "demo_compare (JStr p) (JStr h) = Inr (h = ''h:'' @ p)"
| "demo_compare _ _ = Inl (Thrown ''data and hash must be strings'')"

definition demo_cfg :: token_config where
  "demo_cfg = \<lparr>secret = ''k'', expiry = 604800, mac = (\<lambda>k claims. k @ concat (map fst claims))\<rparr>"

definition demo_env :: env where
  "demo_env =
     \<lparr>sql_eq = decimal_eq,
      select_fault = (\<lambda>q s. None),
      exec_fault = (\<lambda>q s. None),
      bcrypt_hash = demo_hash,
      bcrypt_compare = demo_compare,
      generateToken = issue demo_cfg 1000,
      verifyJWT = verifyJWT_spec demo_cfg 2000\<rparr>"

text \<open>The same deployment with the database unreachable.\<close>

definition down_env :: env where
  "down_env =
     demo_env\<lparr>select_fault := (\<lambda>q s. Some ''connect ECONNREFUSED 127.0.0.1:3306''),
              exec_fault := (\<lambda>q s. Some ''connect ECONNREFUSED 127.0.0.1:3306'')\<rparr>"

definition al :: obj where
  "al = [(''id'', JNum 5), (''username'', JStr ''al''), (''email'', JStr ''a@x.com''),
         (''password'', JStr ''h:pw1''), (''created_at'', JNum 10)]"

definition bo :: obj where
  "bo = [(''id'', JNum 6), (''username'', JStr ''bo''), (''email'', JStr ''b@x.com''),
         (''password'', JStr ''h:pw2''), (''created_at'', JNum 11)]"

definition post1 :: obj where
  "post1 = [(''id'', JNum 1), (''author_id'', JNum 5), (''title'', JStr ''T''),
            (''content'', JStr ''C''), (''category'', JStr ''news''),
            (''tags'', JStr ''a,b''), (''summary'', JStr ''C...''), (''created_at'', JNum 20)]"

definition demo_store :: store where
  "demo_store =
     \<lparr>users = [al, bo], articles = [post1], users_auto = 7, articles_auto = 2, clock = 30\<rparr>"

definition anonymous :: request where
  "anonymous =
     \<lparr>body = JUndefined, params_id = JUndefined, authorization = JUndefined, user = JUndefined\<rparr>"

definition as_user :: "int \<Rightarrow> string \<Rightarrow> request \<Rightarrow> request" where
  "as_user i em req = req\<lparr>user := JObj [(''id'', JNum i), (''email'', JStr em)]\<rparr>"

section \<open>Basic facts\<close>

lemma strict_eq_imp_eq: "strict_eq a b \<Longrightarrow> a = b"
  by (cases a; cases b) simp_all

lemma strict_eq_primitive: "is_primitive a \<Longrightarrow> strict_eq a a"
  by (cases a) simp_all

lemma strict_eq_right_primitive: "strict_eq a b \<Longrightarrow> is_primitive b"
  by (cases a; cases b) simp_all

lemmas demo_simps =
  demo_env_def demo_store_def al_def bo_def post1_def anonymous_def as_user_def
  get_prop_def project_def digit_def db_select_def db_exec_def
  respond_def failure_def server_error_def

text \<open>The two guarded routes: authentication, then the ownership check, then the
  controller; whichever answers first ends the request.\<close>

lemma dispatch_put:
  "dispatch e PUT ById req s =
     Some (case verifyJWT e req of
             Inl r \<Rightarrow> (r, s)
           | Inr req' \<Rightarrow>
               (case checkOwnership e req' s of
                  Sent r \<Rightarrow> (r, s)
                | Next \<Rightarrow> updateArticle e req' s))"
  by (simp add: dispatch_def router_def split: sum.split outcome.split)

lemma dispatch_delete:
  "dispatch e DELETE ById req s =
     Some (case verifyJWT e req of
             Inl r \<Rightarrow> (r, s)
           | Inr req' \<Rightarrow>
               (case checkOwnership e req' s of
                  Sent r \<Rightarrow> (r, s)
                | Next \<Rightarrow> deleteArticle e req' s))"
  by (simp add: dispatch_def router_def split: sum.split outcome.split)

section \<open>The ownership gate\<close>

text \<open>
  C1. When the lookup of the article runs: if no article has the requested id, the gate
  answers 404 ``Article not found'', whatever \<^verbatim>\<open>req.user\<close> is (the actor is not read
  before that); if the article exists and the actor's id differs from its
  \<^verbatim>\<open>author_id\<close>, the gate answers 403 and not 404; if the article exists and the actor's
  id is its (numeric) \<^verbatim>\<open>author_id\<close>, the gate calls \<^verbatim>\<open>next()\<close>. On the routes
  \<^verbatim>\<open>PUT /:id\<close> and \<^verbatim>\<open>DELETE /:id\<close> the gate runs on the request the authentication
  middleware passes on, and the controller runs only after \<^verbatim>\<open>next()\<close>.
\<close>

theorem checkOwnership_not_found_before_forbidden:
  assumes "select_fault e (AuthorIdOfArticle (params_id req)) s = None"
  shows "(filter (\<lambda>a. sql_eq e (get_prop a ''id'') (sql_bind (params_id req))) (articles s) = []
            \<longrightarrow> checkOwnership e req s = Sent (failure 404 ''Article not found''))
       \<and> (\<forall>a rest uid.
            filter (\<lambda>a. sql_eq e (get_prop a ''id'') (sql_bind (params_id req))) (articles s) = a # rest
            \<and> member (user req) ''id'' = Inr uid \<and> get_prop a ''author_id'' \<noteq> uid
            \<longrightarrow> checkOwnership e req s = Sent (failure 403 ''Forbidden: You are not the author''))
       \<and> (\<forall>a rest n.
            filter (\<lambda>a. sql_eq e (get_prop a ''id'') (sql_bind (params_id req))) (articles s) = a # rest
            \<and> get_prop a ''author_id'' = JNum n \<and> member (user req) ''id'' = Inr (JNum n)
            \<longrightarrow> checkOwnership e req s = Next)
       \<and> (\<forall>req0. verifyJWT e req0 = Inr req
            \<longrightarrow> dispatch e PUT ById req0 s
                  = Some (case checkOwnership e req s of
                            Sent r \<Rightarrow> (r, s) | Next \<Rightarrow> updateArticle e req s)
              \<and> dispatch e DELETE ById req0 s
                  = Some (case checkOwnership e req s of
                            Sent r \<Rightarrow> (r, s) | Next \<Rightarrow> deleteArticle e req s))"
proof -
  have gate: "(filter (\<lambda>a. sql_eq e (get_prop a ''id'') (sql_bind (params_id req))) (articles s) = []
            \<longrightarrow> checkOwnership e req s = Sent (failure 404 ''Article not found''))
       \<and> (\<forall>a rest uid.
            filter (\<lambda>a. sql_eq e (get_prop a ''id'') (sql_bind (params_id req))) (articles s) = a # rest
            \<and> member (user req) ''id'' = Inr uid \<and> get_prop a ''author_id'' \<noteq> uid
            \<longrightarrow> checkOwnership e req s = Sent (failure 403 ''Forbidden: You are not the author''))
       \<and> (\<forall>a rest n.
            filter (\<lambda>a. sql_eq e (get_prop a ''id'') (sql_bind (params_id req))) (articles s) = a # rest
            \<and> get_prop a ''author_id'' = JNum n \<and> member (user req) ''id'' = Inr (JNum n)
            \<longrightarrow> checkOwnership e req s = Next)"
    using assms
    by (auto simp: checkOwnership_def checkOwnership_try_def db_select_def project_def get_prop_def
             dest: strict_eq_imp_eq)
  have route: "\<forall>req0. verifyJWT e req0 = Inr req
            \<longrightarrow> dispatch e PUT ById req0 s
                  = Some (case checkOwnership e req s of
                            Sent r \<Rightarrow> (r, s) | Next \<Rightarrow> updateArticle e req s)
              \<and> dispatch e DELETE ById req0 s
                  = Some (case checkOwnership e req s of
                            Sent r \<Rightarrow> (r, s) | Next \<Rightarrow> deleteArticle e req s)"
    by (simp add: dispatch_put dispatch_delete)
  from gate route show ?thesis by simp
qed

theorem checkOwnership_not_found_before_forbidden_witness:
  "select_fault demo_env (AuthorIdOfArticle (JStr ''2'')) demo_store = None
   \<and> checkOwnership demo_env (anonymous\<lparr>params_id := JStr ''2''\<rparr>) demo_store
       = Sent (failure 404 ''Article not found'')
   \<and> checkOwnership demo_env (as_user 6 ''b@x.com'' (anonymous\<lparr>params_id := JStr ''1''\<rparr>)) demo_store
       = Sent (failure 403 ''Forbidden: You are not the author'')
   \<and> checkOwnership demo_env (as_user 5 ''a@x.com'' (anonymous\<lparr>params_id := JStr ''1''\<rparr>)) demo_store
       = Next"
  using checkOwnership_not_found_before_forbidden
          [of demo_env "anonymous\<lparr>params_id := JStr ''2''\<rparr>" demo_store]
        checkOwnership_not_found_before_forbidden
          [of demo_env "as_user 6 ''b@x.com'' (anonymous\<lparr>params_id := JStr ''1''\<rparr>)" demo_store]
        checkOwnership_not_found_before_forbidden
          [of demo_env "as_user 5 ''a@x.com'' (anonymous\<lparr>params_id := JStr ''1''\<rparr>)" demo_store]
  by (simp add: demo_simps)

text \<open>
  C2. For an existing article and an attached actor, the gate calls \<^verbatim>\<open>next()\<close> exactly
  when the stored \<^verbatim>\<open>author_id\<close> and the actor's id are the same primitive value of the
  same type. Nothing is converted: a numeric \<^verbatim>\<open>author_id\<close> against a string id, or a
  string against a number, is always answered 403, also when the string is the decimal
  text of the number.
\<close>

theorem checkOwnership_exact_equality:
  assumes "select_fault e (AuthorIdOfArticle (params_id req)) s = None"
    and "filter (\<lambda>a. sql_eq e (get_prop a ''id'') (sql_bind (params_id req))) (articles s) = a # rest"
    and "member (user req) ''id'' = Inr uid"
  shows "(checkOwnership e req s = Next \<longrightarrow> get_prop a ''author_id'' = uid \<and> is_primitive uid)
       \<and> (get_prop a ''author_id'' = uid \<and> is_primitive uid \<longrightarrow> checkOwnership e req s = Next)
       \<and> (\<forall>n t. get_prop a ''author_id'' = JNum n \<and> uid = JStr t
            \<longrightarrow> checkOwnership e req s = Sent (failure 403 ''Forbidden: You are not the author''))
       \<and> (\<forall>n t. get_prop a ''author_id'' = JStr t \<and> uid = JNum n
            \<longrightarrow> checkOwnership e req s = Sent (failure 403 ''Forbidden: You are not the author''))"
proof -
  have gate: "checkOwnership e req s =
      (if strict_eq (get_prop a ''author_id'') uid then Next
       else Sent (failure 403 ''Forbidden: You are not the author''))"
    using assms
    by (simp add: checkOwnership_def checkOwnership_try_def db_select_def project_def get_prop_def)
  show ?thesis
    unfolding gate
    by (auto dest: strict_eq_imp_eq strict_eq_right_primitive simp: strict_eq_primitive)
qed

theorem checkOwnership_exact_equality_witness:
  "checkOwnership demo_env
      (anonymous\<lparr>params_id := JStr ''1'', user := JObj [(''id'', JStr ''5'')]\<rparr>) demo_store
     = Sent (failure 403 ''Forbidden: You are not the author'')
   \<and> checkOwnership demo_env
      (anonymous\<lparr>params_id := JStr ''1'', user := JObj [(''id'', JNum 5)]\<rparr>) demo_store
     = Next"
  using checkOwnership_exact_equality
          [of demo_env "anonymous\<lparr>params_id := JStr ''1'', user := JObj [(''id'', JStr ''5'')]\<rparr>"
              demo_store post1 "[]" "JStr ''5''"]
        checkOwnership_exact_equality
          [of demo_env "anonymous\<lparr>params_id := JStr ''1'', user := JObj [(''id'', JNum 5)]\<rparr>"
              demo_store post1 "[]" "JNum 5"]
  by (simp add: demo_simps)

lemma filter_unique_hd:
  assumes "u \<in> set xs" and "P u" and "\<forall>v \<in> set xs. P v \<longrightarrow> v = u"
  shows "\<exists>rest. filter P xs = u # rest"
proof (cases "filter P xs")
  case Nil
  with assms(1,2) show ?thesis by (auto simp: filter_empty_conv)
next
  case (Cons v rest)
  then have "v \<in> set (filter P xs)" by simp
  with assms(3) have "v = u" by auto
  with Cons show ?thesis by simp
qed

section \<open>Login and signup\<close>




text \<open>
  C4, as stated, fails in its last part: a second signup with the email of a stored user
  is answered 400 and leaves the tables as they were, but the message is
  ``Email already registered'', which names the email as the field in conflict.
\<close>

theorem duplicate_signup_message_counterexample:
  "signup demo_env
      (anonymous\<lparr>body := JObj [(''username'', JStr ''al2''), (''email'', JStr ''a@x.com''),
                                 (''password'', JStr ''pw9'')]\<rparr>) demo_store
     = (failure 400 ''Email already registered'', demo_store)
   \<and> names_email (fst (signup demo_env
      (anonymous\<lparr>body := JObj [(''username'', JStr ''al2''), (''email'', JStr ''a@x.com''),
                                 (''password'', JStr ''pw9'')]\<rparr>) demo_store))"
  by (simp add: demo_simps signup_def signup_try_def catch_500_def names_email_def)

text \<open>
  C4, amended. For every signup with all three fields present whose email matches the
  email of a stored user, when the lookup runs: signup answers 400 with the body
  \<^verbatim>\<open>{success: false, message: "Email already registered"}\<close>, inserts nothing (the tables
  are unchanged), and the message names the email as the cause.
\<close>

theorem signup_conflict:
  assumes "body req = JObj b"
    and "truthy (get_prop b ''username'')" and "truthy (get_prop b ''email'')"
    and "truthy (get_prop b ''password'')"
    and "select_fault e (UserIdByEmail (get_prop b ''email'')) s = None"
    and "u \<in> set (users s)"
    and "sql_eq e (get_prop u ''email'') (sql_bind (get_prop b ''email''))"
  shows "signup e req s = (failure 400 ''Email already registered'', s)
       \<and> status (fst (signup e req s)) = 400
       \<and> names_email (fst (signup e req s))"
proof -
  have "filter (\<lambda>u. sql_eq e (get_prop u ''email'') (sql_bind (get_prop b ''email''))) (users s) \<noteq> []"
    using assms(6,7) by (auto simp: filter_empty_conv)
  then have 1: "signup e req s = (failure 400 ''Email already registered'', s)"
    using assms(1-5) by (simp add: signup_def signup_try_def catch_500_def db_select_def)
  show ?thesis by (simp add: 1 failure_def respond_def names_email_def get_prop_def)
qed

theorem signup_conflict_witness:
  "al \<in> set (users demo_store)
   \<and> signup demo_env
      (anonymous\<lparr>body := JObj [(''username'', JStr ''al2''), (''email'', JStr ''a@x.com''),
                                 (''password'', JStr ''pw9'')]\<rparr>) demo_store
     = (failure 400 ''Email already registered'', demo_store)"
  using signup_conflict
     [of "anonymous\<lparr>body := JObj [(''username'', JStr ''al2''), (''email'', JStr ''a@x.com''),
                                 (''password'', JStr ''pw9'')]\<rparr>"
         "[(''username'', JStr ''al2''), (''email'', JStr ''a@x.com''), (''password'', JStr ''pw9'')]"
         demo_env demo_store al]
  by (simp add: demo_simps)

text \<open>
  C5. For every stored user whose email is not shared with another row, a login with
  that email and a password that verifies against the stored hash is answered 200 with a
  token; with the token utility of the spec, the token verifies (before its expiry) to a
  claim set with exactly the keys id, email, issuedAt, expiresAt, where id and email are
  the user's. No other column of the user row, such as the password hash, is a claim.
\<close>

theorem login_token_claims:
  assumes "u \<in> set (users s)"
    and "get_prop u ''email'' = JStr em" and "em \<noteq> []"
    and "\<forall>v \<in> set (users s). sql_eq e (get_prop v ''email'') (JStr em) \<longrightarrow> v = u"
    and "sql_eq e (JStr em) (JStr em)"
    and "body req = JObj b" and "get_prop b ''email'' = JStr em"
    and "truthy (get_prop b ''password'')"
    and "bcrypt_compare e (get_prop b ''password'') (get_prop u ''password'') = Inr True"
    and "select_fault e (UserByEmail (JStr em)) s = None"
    and "generateToken e = issue cfg t0"
    and "t < t0 + expiry cfg"
  shows "\<exists>tok claims.
           login e req s =
             (\<lparr>status = 200,
               json = [(''success'', JBool True), (''message'', JStr ''Login successful''),
                       (''token'', tok)]\<rparr>, s)
         \<and> verify cfg t tok = Inr claims
         \<and> map fst claims = [''id'', ''email'', ''issuedAt'', ''expiresAt'']
         \<and> get_prop claims ''id'' = get_prop u ''id''
         \<and> get_prop claims ''email'' = JStr em
         \<and> get_prop claims ''password'' = JUndefined"
proof -
  let ?P = "\<lambda>v. sql_eq e (get_prop v ''email'') (JStr em)"
  have "?P u" using assms(2,5) by simp
  with assms(1,4) obtain rest where found: "filter ?P (users s) = u # rest"
    using filter_unique_hd [of u "users s" ?P] by blast
  let ?claims = "[(''id'', get_prop u ''id''), (''email'', JStr em),
                  (''issuedAt'', JNum t0), (''expiresAt'', JNum (t0 + expiry cfg))]"
  let ?tok = "JObj [(''claims'', JObj ?claims),
                    (''signature'', JStr (mac cfg (secret cfg) ?claims))]"
  have tok: "generateToken e (JObj u) = Inr ?tok"
    using assms(2,11) by (simp add: issue_def Let_def)
  have run: "login e req s =
             (\<lparr>status = 200,
               json = [(''success'', JBool True), (''message'', JStr ''Login successful''),
                       (''token'', ?tok)]\<rparr>, s)"
    using assms(3,6-10) found tok
    by (simp add: login_def login_try_def catch_500_def db_select_def respond_def Let_def)
  have ver: "verify cfg t ?tok = Inr ?claims"
    using assms(12) by (simp add: get_prop_def)
  have keys: "map fst ?claims = [''id'', ''email'', ''issuedAt'', ''expiresAt'']"
    by simp
  have vals: "get_prop ?claims ''id'' = get_prop u ''id''"
             "get_prop ?claims ''email'' = JStr em"
             "get_prop ?claims ''password'' = JUndefined"
    by (simp_all add: get_prop_def)
  show ?thesis
    by (intro exI [of _ ?tok] exI [of _ ?claims] conjI run ver keys vals)
qed

theorem login_token_claims_witness:
  "\<exists>tok claims.
      login demo_env
        (anonymous\<lparr>body := JObj [(''email'', JStr ''a@x.com''), (''password'', JStr ''pw1'')]\<rparr>)
        demo_store =
        (\<lparr>status = 200,
          json = [(''success'', JBool True), (''message'', JStr ''Login successful''),
                  (''token'', tok)]\<rparr>, demo_store)
    \<and> verify demo_cfg 2000 tok = Inr claims
    \<and> map fst claims = [''id'', ''email'', ''issuedAt'', ''expiresAt'']
    \<and> get_prop claims ''id'' = JNum 5
    \<and> get_prop claims ''email'' = JStr ''a@x.com''
    \<and> get_prop claims ''password'' = JUndefined"
  using login_token_claims
     [of al demo_store "''a@x.com''" demo_env
         "anonymous\<lparr>body := JObj [(''email'', JStr ''a@x.com''), (''password'', JStr ''pw1'')]\<rparr>"
         "[(''email'', JStr ''a@x.com''), (''password'', JStr ''pw1'')]"
         demo_cfg 1000 2000]
  by (simp add: demo_simps demo_cfg_def issue_def Let_def)

section \<open>Articles\<close>

lemma key_in_image: "(k, v) \<in> set r \<Longrightarrow> k \<in> fst ` set r"
  by force

lemma map_of_set_col:
  "map_of (set_col c v r) k = (if k = c then (if c \<in> fst ` set r then Some v else None) else map_of r k)"
proof (induction r)
  case Nil
  show ?case by (simp add: set_col_def)
next
  case (Cons a r)
  have step: "set_col c v (a # r) = (if fst a = c then (c, v) else a) # set_col c v r"
    by (simp add: set_col_def)
  show ?case
    unfolding step using Cons.IH by (cases a) (auto intro: key_in_image)
qed

lemma get_prop_set_col:
  "get_prop (set_col c v r) k = (if k = c \<and> c \<in> fst ` set r then v else get_prop r k)"
  by (auto simp: get_prop_def map_of_set_col map_of_eq_None_iff split: option.splits
           dest: map_of_SomeD intro: rev_image_eqI)

lemma keys_set_col: "map fst (set_col c v r) = map fst r"
  by (induction r) (auto simp: set_col_def)

lemma updateArticle_store_cases:
  assumes "P s"
    and "\<And>t c sm cat tg. P (snd (run_exec (sql_eq e) (UpdateArticles t c sm cat tg (params_id req)) s))"
  shows "P (snd (updateArticle e req s))"
  using assms
  apply (auto simp: updateArticle_def updateArticle_try_def catch_500_def db_exec_def Let_def
              simp del: run_exec.simps
              split: sum.splits option.splits)
  apply (metis snd_conv)
  done

lemma run_update_frame:
  assumes "s' = snd (run_exec eqf (UpdateArticles t c sm cat tg aid) s)"
  shows "users s' = users s \<and> users_auto s' = users_auto s \<and> articles_auto s' = articles_auto s
       \<and> length (articles s') = length (articles s)
       \<and> (\<forall>i < length (articles s).
             map fst (articles s' ! i) = map fst (articles s ! i)
           \<and> (\<forall>k. k \<notin> {''title'', ''content'', ''summary'', ''category'', ''tags''}
                 \<longrightarrow> get_prop (articles s' ! i) k = get_prop (articles s ! i) k)
           \<and> (\<not> eqf (get_prop (articles s ! i) ''id'') (sql_bind aid)
                 \<longrightarrow> articles s' ! i = articles s ! i))"
  using assms by (simp add: get_prop_set_col keys_set_col)


lemma createArticle_author:
  assumes "status (fst (createArticle e req s)) = 201"
  shows "\<exists>row uid. member (user req) ''id'' = Inr uid
           \<and> articles (snd (createArticle e req s)) = articles s @ [row]
           \<and> get_prop row ''author_id'' = sql_bind uid"
  using assms
  by (auto simp: createArticle_def createArticle_try_def catch_500_def db_exec_def Let_def
                 failure_def respond_def server_error_def get_prop_def
           split: sum.splits option.splits if_splits)

text \<open>
  C6. Whatever the request, after \<^verbatim>\<open>updateArticle\<close> the users are the same, there are
  as many articles in the same order, every article keeps its columns, and every column
  other than title, content, summary, category and tags keeps its value, in particular
  \<^verbatim>\<open>author_id\<close>; an article whose id does not match the requested id is not changed at
  all. An article that \<^verbatim>\<open>createArticle\<close> stores (status 201) gets as
  \<^verbatim>\<open>author_id\<close> the id of \<^verbatim>\<open>req.user\<close>.
\<close>

theorem updateArticle_keeps_author:
  "users (snd (updateArticle e req s)) = users s
   \<and> length (articles (snd (updateArticle e req s))) = length (articles s)
   \<and> (\<forall>i < length (articles s).
         map fst (articles (snd (updateArticle e req s)) ! i) = map fst (articles s ! i)
       \<and> (\<forall>k. k \<notin> {''title'', ''content'', ''summary'', ''category'', ''tags''}
             \<longrightarrow> get_prop (articles (snd (updateArticle e req s)) ! i) k
                 = get_prop (articles s ! i) k)
       \<and> get_prop (articles (snd (updateArticle e req s)) ! i) ''author_id''
           = get_prop (articles s ! i) ''author_id''
       \<and> (\<not> sql_eq e (get_prop (articles s ! i) ''id'') (sql_bind (params_id req))
             \<longrightarrow> articles (snd (updateArticle e req s)) ! i = articles s ! i))
   \<and> (status (fst (createArticle e req s)) = 201
        \<longrightarrow> (\<exists>row uid. member (user req) ''id'' = Inr uid
               \<and> articles (snd (createArticle e req s)) = articles s @ [row]
               \<and> get_prop row ''author_id'' = sql_bind uid))"
proof -
  let ?F = "\<lambda>s'. users s' = users s
       \<and> length (articles s') = length (articles s)
       \<and> (\<forall>i < length (articles s).
             map fst (articles s' ! i) = map fst (articles s ! i)
           \<and> (\<forall>k. k \<notin> {''title'', ''content'', ''summary'', ''category'', ''tags''}
                 \<longrightarrow> get_prop (articles s' ! i) k = get_prop (articles s ! i) k)
           \<and> (\<not> sql_eq e (get_prop (articles s ! i) ''id'') (sql_bind (params_id req))
                 \<longrightarrow> articles s' ! i = articles s ! i))"
  have F: "?F (snd (updateArticle e req s))"
  proof (rule updateArticle_store_cases)
    show "?F s" by simp
  next
    fix t c sm cat tg
    show "?F (snd (run_exec (sql_eq e) (UpdateArticles t c sm cat tg (params_id req)) s))"
      using run_update_frame [OF refl, of "sql_eq e" t c sm cat tg "params_id req" s] by simp
  qed
  have A: "status (fst (createArticle e req s)) = 201
        \<longrightarrow> (\<exists>row uid. member (user req) ''id'' = Inr uid
               \<and> articles (snd (createArticle e req s)) = articles s @ [row]
               \<and> get_prop row ''author_id'' = sql_bind uid)"
    using createArticle_author [of e req s] by (rule impI)
  show ?thesis
    using F A by simp
qed


theorem updateArticle_keeps_author_witness:
  "get_prop (articles (snd (updateArticle demo_env
       (as_user 5 ''a@x.com''
          (anonymous\<lparr>params_id := JStr ''1'',
                      body := JObj [(''title'', JStr ''T2''), (''content'', JStr ''C2''),
                                    (''category'', JStr ''K'')]\<rparr>)) demo_store)) ! 0) ''author_id''
     = JNum 5
   \<and> get_prop (articles (snd (updateArticle demo_env
       (as_user 5 ''a@x.com''
          (anonymous\<lparr>params_id := JStr ''1'',
                      body := JObj [(''title'', JStr ''T2''), (''content'', JStr ''C2''),
                                    (''category'', JStr ''K'')]\<rparr>)) demo_store)) ! 0) ''title''
     = JStr ''T2''
   \<and> status (fst (createArticle demo_env
       (as_user 6 ''b@x.com''
          (anonymous\<lparr>body := JObj [(''title'', JStr ''T2''), (''content'', JStr ''C2''),
                                    (''category'', JStr ''K'')]\<rparr>)) demo_store)) = 201
   \<and> get_prop (articles (snd (createArticle demo_env
       (as_user 6 ''b@x.com''
          (anonymous\<lparr>body := JObj [(''title'', JStr ''T2''), (''content'', JStr ''C2''),
                                    (''category'', JStr ''K'')]\<rparr>)) demo_store)) ! 1) ''author_id''
     = JNum 6"
  using updateArticle_keeps_author
     [of demo_env
         "as_user 5 ''a@x.com''
          (anonymous\<lparr>params_id := JStr ''1'',
                      body := JObj [(''title'', JStr ''T2''), (''content'', JStr ''C2''),
                                    (''category'', JStr ''K'')]\<rparr>)" demo_store]
  by (simp add: demo_simps updateArticle_def updateArticle_try_def createArticle_def
        createArticle_try_def catch_500_def set_col_def)

section \<open>Error responses\<close>

lemma server_error_eq:
  "server_error = \<lparr>status = 500, json = [(''success'', JBool False), (''message'', JStr ''Server error'')]\<rparr>"
  by (simp add: server_error_def failure_def respond_def)

lemma error_shape_failure: "error_shape (failure c m)"
  by (simp add: error_shape_def failure_def respond_def)

lemma status_failure: "status (failure c m) = c"
  by (simp add: failure_def respond_def)

lemma status_respond: "status (respond c ob) = c"
  by (simp add: respond_def)

lemma error_shape_server_error: "error_shape server_error"
  by (simp add: server_error_def error_shape_failure)

lemma status_server_error: "status server_error = 500"
  by (simp add: server_error_def status_failure)

lemmas shape_simps =
  error_shape_failure status_failure status_respond error_shape_server_error status_server_error

lemma catch_500_shape:
  assumes "\<And>r s'. t = (Inr r, s') \<Longrightarrow> 400 \<le> status r \<Longrightarrow> error_shape r \<and> status r \<noteq> 500"
  shows "400 \<le> status (fst (catch_500 t)) \<longrightarrow>
           error_shape (fst (catch_500 t))
         \<and> (status (fst (catch_500 t)) = 500 \<longrightarrow> fst (catch_500 t) = server_error)"
  using assms
  by (cases t; cases "fst t") (auto simp: catch_500_def shape_simps)

lemma signup_shape:
  "400 \<le> status (fst (signup e req s)) \<longrightarrow>
     error_shape (fst (signup e req s))
   \<and> (status (fst (signup e req s)) = 500 \<longrightarrow> fst (signup e req s) = server_error)"
  unfolding signup_def
  by (rule catch_500_shape)
     (auto simp: signup_try_def Let_def shape_simps split: sum.splits if_splits prod.splits)

lemma login_shape:
  "400 \<le> status (fst (login e req s)) \<longrightarrow>
     error_shape (fst (login e req s))
   \<and> (status (fst (login e req s)) = 500 \<longrightarrow> fst (login e req s) = server_error)"
  unfolding login_def
  by (rule catch_500_shape)
     (auto simp: login_try_def Let_def shape_simps split: sum.splits if_splits prod.splits list.splits)

lemma createArticle_shape:
  "400 \<le> status (fst (createArticle e req s)) \<longrightarrow>
     error_shape (fst (createArticle e req s))
   \<and> (status (fst (createArticle e req s)) = 500 \<longrightarrow> fst (createArticle e req s) = server_error)"
  unfolding createArticle_def
  by (rule catch_500_shape)
     (auto simp: createArticle_try_def Let_def shape_simps split: sum.splits if_splits prod.splits)

lemma getAllArticles_shape:
  "400 \<le> status (fst (getAllArticles e req s)) \<longrightarrow>
     error_shape (fst (getAllArticles e req s))
   \<and> (status (fst (getAllArticles e req s)) = 500 \<longrightarrow> fst (getAllArticles e req s) = server_error)"
  unfolding getAllArticles_def
  by (rule catch_500_shape)
     (auto simp: getAllArticles_try_def Let_def shape_simps split: sum.splits if_splits prod.splits)

lemma getArticleById_shape:
  "400 \<le> status (fst (getArticleById e req s)) \<longrightarrow>
     error_shape (fst (getArticleById e req s))
   \<and> (status (fst (getArticleById e req s)) = 500 \<longrightarrow> fst (getArticleById e req s) = server_error)"
  unfolding getArticleById_def
  by (rule catch_500_shape)
     (auto simp: getArticleById_try_def Let_def shape_simps split: sum.splits if_splits prod.splits list.splits)

lemma updateArticle_shape:
  "400 \<le> status (fst (updateArticle e req s)) \<longrightarrow>
     error_shape (fst (updateArticle e req s))
   \<and> (status (fst (updateArticle e req s)) = 500 \<longrightarrow> fst (updateArticle e req s) = server_error)"
  unfolding updateArticle_def
  by (rule catch_500_shape)
     (auto simp: updateArticle_try_def Let_def shape_simps split: sum.splits if_splits prod.splits)

lemma deleteArticle_shape:
  "400 \<le> status (fst (deleteArticle e req s)) \<longrightarrow>
     error_shape (fst (deleteArticle e req s))
   \<and> (status (fst (deleteArticle e req s)) = 500 \<longrightarrow> fst (deleteArticle e req s) = server_error)"
  unfolding deleteArticle_def
  by (rule catch_500_shape)
     (auto simp: deleteArticle_try_def Let_def shape_simps split: sum.splits if_splits prod.splits)

lemma checkOwnership_shape:
  "checkOwnership e req s = Sent r \<longrightarrow>
     error_shape r \<and> 400 \<le> status r \<and> (status r = 500 \<longrightarrow> r = server_error)"
  by (auto simp: checkOwnership_def checkOwnership_try_def Let_def shape_simps
           split: sum.splits if_splits list.splits)


lemma signup_select_fault:
  "body req = JObj b \<and> truthy (get_prop b ''username'') \<and> truthy (get_prop b ''email'')
   \<and> truthy (get_prop b ''password'')
   \<and> select_fault e (UserIdByEmail (get_prop b ''email'')) s = Some d
   \<longrightarrow> signup e req s = (server_error, s)"
  by (simp add: signup_def signup_try_def catch_500_def db_select_def)

lemma signup_hash_fault:
  "body req = JObj b \<and> truthy (get_prop b ''username'') \<and> truthy (get_prop b ''email'')
   \<and> truthy (get_prop b ''password'')
   \<and> db_select e (UserIdByEmail (get_prop b ''email'')) s = Inr []
   \<and> bcrypt_hash e (get_prop b ''password'') 10 = Inl x
   \<longrightarrow> signup e req s = (server_error, s)"
  by (simp add: signup_def signup_try_def catch_500_def)

lemma signup_insert_fault:
  "body req = JObj b \<and> truthy (get_prop b ''username'') \<and> truthy (get_prop b ''email'')
   \<and> truthy (get_prop b ''password'')
   \<and> db_select e (UserIdByEmail (get_prop b ''email'')) s = Inr []
   \<and> bcrypt_hash e (get_prop b ''password'') 10 = Inr h
   \<and> exec_fault e (InsertIntoUsers (get_prop b ''username'') (get_prop b ''email'') h) s = Some d
   \<longrightarrow> signup e req s = (server_error, s)"
  by (simp add: signup_def signup_try_def catch_500_def db_exec_def)

lemma signup_token_fault:
  "body req = JObj b \<and> truthy (get_prop b ''username'') \<and> truthy (get_prop b ''email'')
   \<and> truthy (get_prop b ''password'')
   \<and> db_select e (UserIdByEmail (get_prop b ''email'')) s = Inr []
   \<and> bcrypt_hash e (get_prop b ''password'') 10 = Inr h
   \<and> exec_fault e (InsertIntoUsers (get_prop b ''username'') (get_prop b ''email'') h) s = None
   \<and> generateToken e (JObj [(''id'', JNum (users_auto s)), (''email'', get_prop b ''email'')]) = Inl x
   \<longrightarrow> fst (signup e req s) = server_error"
  by (simp add: signup_def signup_try_def catch_500_def db_exec_def Let_def)

lemma login_select_fault:
  "body req = JObj b \<and> truthy (get_prop b ''email'') \<and> truthy (get_prop b ''password'')
   \<and> select_fault e (UserByEmail (get_prop b ''email'')) s = Some d
   \<longrightarrow> login e req s = (server_error, s)"
  by (simp add: login_def login_try_def catch_500_def db_select_def)

lemma login_compare_fault:
  "body req = JObj b \<and> truthy (get_prop b ''email'') \<and> truthy (get_prop b ''password'')
   \<and> db_select e (UserByEmail (get_prop b ''email'')) s = Inr (u # rest)
   \<and> bcrypt_compare e (get_prop b ''password'') (get_prop u ''password'') = Inl x
   \<longrightarrow> login e req s = (server_error, s)"
  by (simp add: login_def login_try_def catch_500_def)

lemma login_token_fault:
  "body req = JObj b \<and> truthy (get_prop b ''email'') \<and> truthy (get_prop b ''password'')
   \<and> db_select e (UserByEmail (get_prop b ''email'')) s = Inr (u # rest)
   \<and> bcrypt_compare e (get_prop b ''password'') (get_prop u ''password'') = Inr True
   \<and> generateToken e (JObj u) = Inl x
   \<longrightarrow> login e req s = (server_error, s)"
  by (simp add: login_def login_try_def catch_500_def)

lemma createArticle_insert_fault:
  "body req = JObj b \<and> truthy (get_prop b ''title'') \<and> get_prop b ''content'' = JStr c \<and> c \<noteq> []
   \<and> truthy (get_prop b ''category'') \<and> member (user req) ''id'' = Inr uid
   \<and> exec_fault e (InsertIntoArticles (get_prop b ''title'') (JStr c) (JStr (take 150 c @ ''...''))
                      (get_prop b ''category'') (get_prop b ''tags'') uid) s = Some d
   \<longrightarrow> createArticle e req s = (server_error, s)"
  by (simp add: createArticle_def createArticle_try_def catch_500_def db_exec_def)

lemma getAllArticles_select_fault:
  "select_fault e AllArticles s = Some d \<longrightarrow> getAllArticles e req s = (server_error, s)"
  by (simp add: getAllArticles_def getAllArticles_try_def catch_500_def db_select_def)

lemma getArticleById_select_fault:
  "select_fault e (ArticleById (params_id req)) s = Some d
   \<longrightarrow> getArticleById e req s = (server_error, s)"
  by (simp add: getArticleById_def getArticleById_try_def catch_500_def db_select_def)

lemma updateArticle_exec_fault:
  "body req = JObj b \<and> truthy (get_prop b ''title'') \<and> get_prop b ''content'' = JStr c \<and> c \<noteq> []
   \<and> truthy (get_prop b ''category'')
   \<and> exec_fault e (UpdateArticles (get_prop b ''title'') (JStr c) (JStr (take 150 c @ ''...''))
                      (get_prop b ''category'') (get_prop b ''tags'') (params_id req)) s = Some d
   \<longrightarrow> updateArticle e req s = (server_error, s)"
  by (simp add: updateArticle_def updateArticle_try_def catch_500_def db_exec_def)

lemma deleteArticle_exec_fault:
  "exec_fault e (DeleteFromArticles (params_id req)) s = Some d
   \<longrightarrow> deleteArticle e req s = (server_error, s)"
  by (simp add: deleteArticle_def deleteArticle_try_def catch_500_def db_exec_def)

lemma checkOwnership_select_fault:
  "select_fault e (AuthorIdOfArticle (params_id req)) s = Some d
   \<longrightarrow> checkOwnership e req s = Sent server_error"
  by (simp add: checkOwnership_def checkOwnership_try_def db_select_def)

lemma checkOwnership_no_actor:
  "db_select e (AuthorIdOfArticle (params_id req)) s = Inr (a # rest) \<and> user req = JUndefined
   \<longrightarrow> checkOwnership e req s = Sent server_error"
  by (simp add: checkOwnership_def checkOwnership_try_def)


text \<open>
  C7. In every operation (signup, login, the five article controllers, the ownership
  check) an error thrown inside the \<^verbatim>\<open>try\<close> block is caught and answered with
  exactly 500 \<^verbatim>\<open>{success: false, message: "Server error"}\<close>, a constant that carries
  nothing of the error; every response with status 400 or more has the shape
  \<^verbatim>\<open>{success: false, message}\<close>, and every 500 is that constant. Errors of the
  collaborators do reach the \<^verbatim>\<open>catch\<close>: a failing statement, a failing hash or
  comparison, a failing token utility, and a missing \<^verbatim>\<open>req.user\<close>, each at the
  point where the operation uses it.
\<close>

theorem unexpected_failure_is_server_error:
  "server_error
     = \<lparr>status = 500, json = [(''success'', JBool False), (''message'', JStr ''Server error'')]\<rparr>
   \<and> (signup_try e req s = (Inl x, s') \<longrightarrow> signup e req s = (server_error, s'))
   \<and> (login_try e req s = (Inl x, s') \<longrightarrow> login e req s = (server_error, s'))
   \<and> (createArticle_try e req s = (Inl x, s') \<longrightarrow> createArticle e req s = (server_error, s'))
   \<and> (getAllArticles_try e req s = (Inl x, s') \<longrightarrow> getAllArticles e req s = (server_error, s'))
   \<and> (getArticleById_try e req s = (Inl x, s') \<longrightarrow> getArticleById e req s = (server_error, s'))
   \<and> (updateArticle_try e req s = (Inl x, s') \<longrightarrow> updateArticle e req s = (server_error, s'))
   \<and> (deleteArticle_try e req s = (Inl x, s') \<longrightarrow> deleteArticle e req s = (server_error, s'))
   \<and> (checkOwnership_try e req s = Inl x \<longrightarrow> checkOwnership e req s = Sent server_error)
   \<and> (400 \<le> status (fst (signup e req s)) \<longrightarrow>
         error_shape (fst (signup e req s))
       \<and> (status (fst (signup e req s)) = 500 \<longrightarrow> fst (signup e req s) = server_error))
   \<and> (400 \<le> status (fst (login e req s)) \<longrightarrow>
         error_shape (fst (login e req s))
       \<and> (status (fst (login e req s)) = 500 \<longrightarrow> fst (login e req s) = server_error))
   \<and> (400 \<le> status (fst (createArticle e req s)) \<longrightarrow>
         error_shape (fst (createArticle e req s))
       \<and> (status (fst (createArticle e req s)) = 500 \<longrightarrow> fst (createArticle e req s) = server_error))
   \<and> (400 \<le> status (fst (getAllArticles e req s)) \<longrightarrow>
         error_shape (fst (getAllArticles e req s))
       \<and> (status (fst (getAllArticles e req s)) = 500 \<longrightarrow> fst (getAllArticles e req s) = server_error))
   \<and> (400 \<le> status (fst (getArticleById e req s)) \<longrightarrow>
         error_shape (fst (getArticleById e req s))
       \<and> (status (fst (getArticleById e req s)) = 500 \<longrightarrow> fst (getArticleById e req s) = server_error))
   \<and> (400 \<le> status (fst (updateArticle e req s)) \<longrightarrow>
         error_shape (fst (updateArticle e req s))
       \<and> (status (fst (updateArticle e req s)) = 500 \<longrightarrow> fst (updateArticle e req s) = server_error))
   \<and> (400 \<le> status (fst (deleteArticle e req s)) \<longrightarrow>
         error_shape (fst (deleteArticle e req s))
       \<and> (status (fst (deleteArticle e req s)) = 500 \<longrightarrow> fst (deleteArticle e req s) = server_error))
   \<and> (checkOwnership e req s = Sent r \<longrightarrow>
         error_shape r \<and> 400 \<le> status r \<and> (status r = 500 \<longrightarrow> r = server_error))
   \<and> (body req = JObj b \<and> truthy (get_prop b ''username'') \<and> truthy (get_prop b ''email'')
       \<and> truthy (get_prop b ''password'')
       \<and> select_fault e (UserIdByEmail (get_prop b ''email'')) s = Some d
       \<longrightarrow> signup e req s = (server_error, s))
   \<and> (body req = JObj b \<and> truthy (get_prop b ''username'') \<and> truthy (get_prop b ''email'')
       \<and> truthy (get_prop b ''password'')
       \<and> db_select e (UserIdByEmail (get_prop b ''email'')) s = Inr []
       \<and> bcrypt_hash e (get_prop b ''password'') 10 = Inl x
       \<longrightarrow> signup e req s = (server_error, s))
   \<and> (body req = JObj b \<and> truthy (get_prop b ''username'') \<and> truthy (get_prop b ''email'')
       \<and> truthy (get_prop b ''password'')
       \<and> db_select e (UserIdByEmail (get_prop b ''email'')) s = Inr []
       \<and> bcrypt_hash e (get_prop b ''password'') 10 = Inr h
       \<and> exec_fault e (InsertIntoUsers (get_prop b ''username'') (get_prop b ''email'') h) s = Some d
       \<longrightarrow> signup e req s = (server_error, s))
   \<and> (body req = JObj b \<and> truthy (get_prop b ''username'') \<and> truthy (get_prop b ''email'')
       \<and> truthy (get_prop b ''password'')
       \<and> db_select e (UserIdByEmail (get_prop b ''email'')) s = Inr []
       \<and> bcrypt_hash e (get_prop b ''password'') 10 = Inr h
       \<and> exec_fault e (InsertIntoUsers (get_prop b ''username'') (get_prop b ''email'') h) s = None
       \<and> generateToken e (JObj [(''id'', JNum (users_auto s)), (''email'', get_prop b ''email'')]) = Inl x
       \<longrightarrow> fst (signup e req s) = server_error)
   \<and> (body req = JObj b \<and> truthy (get_prop b ''email'') \<and> truthy (get_prop b ''password'')
       \<and> select_fault e (UserByEmail (get_prop b ''email'')) s = Some d
       \<longrightarrow> login e req s = (server_error, s))
   \<and> (body req = JObj b \<and> truthy (get_prop b ''email'') \<and> truthy (get_prop b ''password'')
       \<and> db_select e (UserByEmail (get_prop b ''email'')) s = Inr (u # rest)
       \<and> bcrypt_compare e (get_prop b ''password'') (get_prop u ''password'') = Inl x
       \<longrightarrow> login e req s = (server_error, s))
   \<and> (body req = JObj b \<and> truthy (get_prop b ''email'') \<and> truthy (get_prop b ''password'')
       \<and> db_select e (UserByEmail (get_prop b ''email'')) s = Inr (u # rest)
       \<and> bcrypt_compare e (get_prop b ''password'') (get_prop u ''password'') = Inr True
       \<and> generateToken e (JObj u) = Inl x
       \<longrightarrow> login e req s = (server_error, s))
   \<and> (body req = JObj b \<and> truthy (get_prop b ''title'') \<and> get_prop b ''content'' = JStr c \<and> c \<noteq> []
       \<and> truthy (get_prop b ''category'') \<and> member (user req) ''id'' = Inr uid
       \<and> exec_fault e (InsertIntoArticles (get_prop b ''title'') (JStr c) (JStr (take 150 c @ ''...''))
                          (get_prop b ''category'') (get_prop b ''tags'') uid) s = Some d
       \<longrightarrow> createArticle e req s = (server_error, s))
   \<and> (select_fault e AllArticles s = Some d \<longrightarrow> getAllArticles e req s = (server_error, s))
   \<and> (select_fault e (ArticleById (params_id req)) s = Some d
       \<longrightarrow> getArticleById e req s = (server_error, s))
   \<and> (body req = JObj b \<and> truthy (get_prop b ''title'') \<and> get_prop b ''content'' = JStr c \<and> c \<noteq> []
       \<and> truthy (get_prop b ''category'')
       \<and> exec_fault e (UpdateArticles (get_prop b ''title'') (JStr c) (JStr (take 150 c @ ''...''))
                          (get_prop b ''category'') (get_prop b ''tags'') (params_id req)) s = Some d
       \<longrightarrow> updateArticle e req s = (server_error, s))
   \<and> (exec_fault e (DeleteFromArticles (params_id req)) s = Some d
       \<longrightarrow> deleteArticle e req s = (server_error, s))
   \<and> (select_fault e (AuthorIdOfArticle (params_id req)) s = Some d
       \<longrightarrow> checkOwnership e req s = Sent server_error)
   \<and> (db_select e (AuthorIdOfArticle (params_id req)) s = Inr (a # rest) \<and> user req = JUndefined
       \<longrightarrow> checkOwnership e req s = Sent server_error)"
proof -
  have caught: "t = (Inl x, s') \<longrightarrow> catch_500 t = (server_error, s')" for t
    by (simp add: catch_500_def)
  show ?thesis
    unfolding signup_def login_def createArticle_def getAllArticles_def getArticleById_def updateArticle_def deleteArticle_def
    by (intro conjI server_error_eq caught
          signup_shape [unfolded signup_def] login_shape [unfolded login_def]
          createArticle_shape [unfolded createArticle_def]
          getAllArticles_shape [unfolded getAllArticles_def]
          getArticleById_shape [unfolded getArticleById_def]
          updateArticle_shape [unfolded updateArticle_def]
          deleteArticle_shape [unfolded deleteArticle_def]
          checkOwnership_shape
          signup_select_fault [unfolded signup_def]
          signup_hash_fault [unfolded signup_def]
          signup_insert_fault [unfolded signup_def]
          signup_token_fault [unfolded signup_def]
          login_select_fault [unfolded login_def]
          login_compare_fault [unfolded login_def]
          login_token_fault [unfolded login_def]
          createArticle_insert_fault [unfolded createArticle_def]
          getAllArticles_select_fault [unfolded getAllArticles_def]
          getArticleById_select_fault [unfolded getArticleById_def]
          updateArticle_exec_fault [unfolded updateArticle_def]
          deleteArticle_exec_fault [unfolded deleteArticle_def]
          checkOwnership_select_fault
          checkOwnership_no_actor)
       (simp add: checkOwnership_def)
qed

theorem unexpected_failure_is_server_error_witness:
  "signup down_env
      (anonymous\<lparr>body := JObj [(''username'', JStr ''cy''), (''email'', JStr ''c@x.com''),
                                 (''password'', JStr ''pw3'')]\<rparr>) demo_store
     = (\<lparr>status = 500,
         json = [(''success'', JBool False), (''message'', JStr ''Server error'')]\<rparr>, demo_store)
   \<and> deleteArticle down_env (anonymous\<lparr>params_id := JStr ''1''\<rparr>) demo_store
     = (\<lparr>status = 500,
         json = [(''success'', JBool False), (''message'', JStr ''Server error'')]\<rparr>, demo_store)
   \<and> checkOwnership down_env (anonymous\<lparr>params_id := JStr ''1''\<rparr>) demo_store
     = Sent \<lparr>status = 500,
              json = [(''success'', JBool False), (''message'', JStr ''Server error'')]\<rparr>"
  using unexpected_failure_is_server_error
     [where e = down_env and s = demo_store
        and req = "anonymous\<lparr>body := JObj [(''username'', JStr ''cy''), (''email'', JStr ''c@x.com''),
                                 (''password'', JStr ''pw3'')]\<rparr>"
        and b = "[(''username'', JStr ''cy''), (''email'', JStr ''c@x.com''), (''password'', JStr ''pw3'')]"
        and d = "''connect ECONNREFUSED 127.0.0.1:3306''"]
     unexpected_failure_is_server_error
     [where e = down_env and s = demo_store
        and req = "anonymous\<lparr>params_id := JStr ''1''\<rparr>"
        and d = "''connect ECONNREFUSED 127.0.0.1:3306''"]
  by (simp add: down_env_def demo_env_def anonymous_def get_prop_def)

section \<open>Reading one article\<close>

lemma map_of_filter_keys:
  "map_of (filter (\<lambda>kv. fst kv \<notin> S) r) k = (if k \<in> S then None else map_of r k)"
  by (induction r) auto

lemma get_prop_joined:
  "get_prop (filter (\<lambda>kv. fst kv \<notin> set cols) a @ project cols u) k
     = (if k \<in> set cols then get_prop u k else get_prop a k)"
proof -
  have "map_of (project cols u) k = (if k \<in> set cols then Some (get_prop u k) else None)"
    unfolding project_def by (induction cols) auto
  then show ?thesis
    by (simp add: get_prop_def map_of_append map_of_filter_keys map_add_def split: option.splits)
qed

lemma join_author_first:
  assumes "filter (\<lambda>u. get_prop u ''id'' = get_prop a ''author_id'' \<and> get_prop u ''id'' \<noteq> JNull) us
             = u # others"
  shows "\<exists>more. join_author cols us (a # rest)
           = (filter (\<lambda>kv. fst kv \<notin> set cols) a @ project cols u) # more"
  using assms by (simp add: join_author_def)

lemma dispatch_get_by_id: "dispatch e GET ById req s = Some (getArticleById e req s)"
  by (simp add: dispatch_def router_def)

text \<open>
  C8. The route \<^verbatim>\<open>GET /:id\<close> has no middleware: its answer does not depend on the
  authorization header, on \<^verbatim>\<open>req.user\<close> or on what the authentication middleware
  would do. For an article that exists (with its author among the users), when the query
  runs, the answer is 200 with \<^verbatim>\<open>data\<close> the article row extended by the author's
  \<^verbatim>\<open>username\<close> and \<^verbatim>\<open>email\<close>.
\<close>

theorem getArticleById_public_with_author_email:
  assumes "select_fault e (ArticleById (params_id req)) s = None"
    and "filter (\<lambda>a. sql_eq e (get_prop a ''id'') (sql_bind (params_id req))) (articles s) = a # rest"
    and "filter (\<lambda>u. get_prop u ''id'' = get_prop a ''author_id'' \<and> get_prop u ''id'' \<noteq> JNull)
           (users s) = u # others"
  shows "\<exists>row.
           dispatch (e\<lparr>verifyJWT := v\<rparr>) GET ById (req\<lparr>authorization := hdr, user := actor\<rparr>) s
             = Some (\<lparr>status = 200, json = [(''success'', JBool True), (''data'', JObj row)]\<rparr>, s)
         \<and> get_prop row ''email'' = get_prop u ''email''
         \<and> get_prop row ''username'' = get_prop u ''username''
         \<and> (\<forall>k. k \<notin> {''username'', ''email''} \<longrightarrow> get_prop row k = get_prop a k)"
proof -
  let ?row = "filter (\<lambda>kv. fst kv \<notin> set [''username'', ''email'']) a
              @ project [''username'', ''email''] u"
  obtain more where rows:
    "join_author [''username'', ''email''] (users s) (a # rest) = ?row # more"
    using join_author_first [OF assms(3)] by blast
  have run: "dispatch (e\<lparr>verifyJWT := v\<rparr>) GET ById (req\<lparr>authorization := hdr, user := actor\<rparr>) s
             = Some (\<lparr>status = 200, json = [(''success'', JBool True), (''data'', JObj ?row)]\<rparr>, s)"
    using assms(1,2) rows
    by (simp add: dispatch_get_by_id getArticleById_def getArticleById_try_def catch_500_def
                  db_select_def respond_def)
  have cols: "get_prop ?row ''email'' = get_prop u ''email''"
             "get_prop ?row ''username'' = get_prop u ''username''"
             "\<forall>k. k \<notin> {''username'', ''email''} \<longrightarrow> get_prop ?row k = get_prop a k"
    using get_prop_joined [of "[''username'', ''email'']" a u] by simp_all
  show ?thesis
    by (intro exI [of _ ?row] conjI run cols)
qed


theorem getArticleById_public_with_author_email_witness:
  "filter (\<lambda>a. sql_eq demo_env (get_prop a ''id'') (JStr ''1'')) (articles demo_store) = [post1]
   \<and> dispatch demo_env GET ById (anonymous\<lparr>params_id := JStr ''1''\<rparr>) demo_store
       = Some (\<lparr>status = 200,
                json = [(''success'', JBool True),
                        (''data'', JObj (post1 @ [(''username'', JStr ''al''),
                                                  (''email'', JStr ''a@x.com'')]))]\<rparr>,
               demo_store)"
  using getArticleById_public_with_author_email
     [of demo_env "anonymous\<lparr>params_id := JStr ''1''\<rparr>" demo_store post1 "[]" al "[]"
         "verifyJWT demo_env" JUndefined JUndefined]
  by (simp add: demo_simps dispatch_get_by_id getArticleById_def getArticleById_try_def
        catch_500_def join_author_def)

section \<open>Validation of article fields\<close>











section \<open>Update and delete of an absent article\<close>

lemma map_if_none:
  "filter P xs = [] \<Longrightarrow> map (\<lambda>a. if P a then f a else a) xs = xs"
  by (induction xs) (auto split: if_splits)

lemma filter_not_none:
  "filter P xs = [] \<Longrightarrow> filter (\<lambda>a. \<not> P a) xs = xs"
  by (induction xs) (auto split: if_splits)

lemma updateArticle_ok:
  assumes "body req = JObj b"
    and "truthy (get_prop b ''title'')" and "get_prop b ''content'' = JStr c" and "c \<noteq> []"
    and "truthy (get_prop b ''category'')"
    and "exec_fault e (UpdateArticles (get_prop b ''title'') (JStr c) (JStr (take 150 c @ ''...''))
                         (get_prop b ''category'') (get_prop b ''tags'') (params_id req)) s = None"
  shows "updateArticle e req s =
           (\<lparr>status = 200,
             json = [(''success'', JBool True),
                     (''message'', JStr ''Article updated successfully'')]\<rparr>,
            snd (run_exec (sql_eq e)
                   (UpdateArticles (get_prop b ''title'') (JStr c) (JStr (take 150 c @ ''...''))
                      (get_prop b ''category'') (get_prop b ''tags'') (params_id req)) s))"
  using assms
  by (simp add: updateArticle_def updateArticle_try_def catch_500_def db_exec_def respond_def
                case_prod_unfold del: run_exec.simps)

lemma deleteArticle_ok:
  assumes "exec_fault e (DeleteFromArticles (params_id req)) s = None"
  shows "deleteArticle e req s =
           (\<lparr>status = 200,
             json = [(''success'', JBool True),
                     (''message'', JStr ''Article deleted successfully'')]\<rparr>,
            snd (run_exec (sql_eq e) (DeleteFromArticles (params_id req)) s))"
  using assms
  by (simp add: deleteArticle_def deleteArticle_try_def catch_500_def db_exec_def respond_def
                case_prod_unfold del: run_exec.simps)

lemma run_update_none:
  assumes "filter (\<lambda>a. eqf (get_prop a ''id'') (sql_bind aid)) (articles s) = []"
  shows "run_exec eqf (UpdateArticles t c sm cat tg aid) s = (\<lparr>insertId = 0, affectedRows = 0\<rparr>, s)"
  using assms map_if_none [OF assms] by simp

lemma run_delete_none:
  assumes "filter (\<lambda>a. eqf (get_prop a ''id'') (sql_bind aid)) (articles s) = []"
  shows "run_exec eqf (DeleteFromArticles aid) s = (\<lparr>insertId = 0, affectedRows = 0\<rparr>, s)"
  using assms filter_not_none [OF assms] by simp

text \<open>
  C10. \<^verbatim>\<open>updateArticle\<close> and \<^verbatim>\<open>deleteArticle\<close> do not look at the result of their
  statement: whenever the statement runs without throwing they answer 200 with
  \<^verbatim>\<open>success: true\<close> and their success message, also when no article has the requested
  id, where the statement affects zero rows and the tables stay as they were.
\<close>

theorem update_delete_ignore_statement_result:
  "(\<forall>b c.
      body req = JObj b \<and> truthy (get_prop b ''title'') \<and> get_prop b ''content'' = JStr c
      \<and> c \<noteq> [] \<and> truthy (get_prop b ''category'')
      \<and> exec_fault e (UpdateArticles (get_prop b ''title'') (JStr c) (JStr (take 150 c @ ''...''))
                         (get_prop b ''category'') (get_prop b ''tags'') (params_id req)) s = None
      \<longrightarrow> fst (updateArticle e req s)
            = \<lparr>status = 200,
               json = [(''success'', JBool True),
                       (''message'', JStr ''Article updated successfully'')]\<rparr>
        \<and> (filter (\<lambda>a. sql_eq e (get_prop a ''id'') (sql_bind (params_id req))) (articles s) = []
             \<longrightarrow> affectedRows (fst (run_exec (sql_eq e)
                     (UpdateArticles (get_prop b ''title'') (JStr c) (JStr (take 150 c @ ''...''))
                        (get_prop b ''category'') (get_prop b ''tags'') (params_id req)) s)) = 0
               \<and> snd (updateArticle e req s) = s))
   \<and> (exec_fault e (DeleteFromArticles (params_id req)) s = None
      \<longrightarrow> fst (deleteArticle e req s)
            = \<lparr>status = 200,
               json = [(''success'', JBool True),
                       (''message'', JStr ''Article deleted successfully'')]\<rparr>
        \<and> (filter (\<lambda>a. sql_eq e (get_prop a ''id'') (sql_bind (params_id req))) (articles s) = []
             \<longrightarrow> affectedRows (fst (run_exec (sql_eq e) (DeleteFromArticles (params_id req)) s)) = 0
               \<and> snd (deleteArticle e req s) = s))"
proof (intro conjI allI impI; (elim conjE)?)
  fix b c
  assume h: "body req = JObj b" "truthy (get_prop b ''title'')" "get_prop b ''content'' = JStr c"
    "c \<noteq> []" "truthy (get_prop b ''category'')"
    "exec_fault e (UpdateArticles (get_prop b ''title'') (JStr c) (JStr (take 150 c @ ''...''))
                         (get_prop b ''category'') (get_prop b ''tags'') (params_id req)) s = None"
  note ok = updateArticle_ok [OF h]
  show "fst (updateArticle e req s)
            = \<lparr>status = 200,
               json = [(''success'', JBool True),
                       (''message'', JStr ''Article updated successfully'')]\<rparr>"
    by (simp add: ok)
  assume none: "filter (\<lambda>a. sql_eq e (get_prop a ''id'') (sql_bind (params_id req))) (articles s) = []"
  show "affectedRows (fst (run_exec (sql_eq e)
                     (UpdateArticles (get_prop b ''title'') (JStr c) (JStr (take 150 c @ ''...''))
                        (get_prop b ''category'') (get_prop b ''tags'') (params_id req)) s)) = 0"
    using none by (simp only: run_update_none [of "sql_eq e" "params_id req" s]) simp
  show "snd (updateArticle e req s) = s"
    using none by (simp only: ok run_update_none [of "sql_eq e" "params_id req" s]) simp
next
  assume h: "exec_fault e (DeleteFromArticles (params_id req)) s = None"
  note ok = deleteArticle_ok [OF h]
  show "fst (deleteArticle e req s)
            = \<lparr>status = 200,
               json = [(''success'', JBool True),
                       (''message'', JStr ''Article deleted successfully'')]\<rparr>"
    by (simp add: ok)
  assume none: "filter (\<lambda>a. sql_eq e (get_prop a ''id'') (sql_bind (params_id req))) (articles s) = []"
  show "affectedRows (fst (run_exec (sql_eq e) (DeleteFromArticles (params_id req)) s)) = 0"
    using none by (simp only: run_delete_none [of "sql_eq e" "params_id req" s]) simp
  show "snd (deleteArticle e req s) = s"
    using none by (simp only: ok run_delete_none [of "sql_eq e" "params_id req" s]) simp
qed

theorem update_delete_ignore_statement_result_witness:
  "filter (\<lambda>a. sql_eq demo_env (get_prop a ''id'') (JStr ''99'')) (articles demo_store) = []
   \<and> updateArticle demo_env
        (anonymous\<lparr>params_id := JStr ''99'',
                    body := JObj [(''title'', JStr ''T2''), (''content'', JStr ''C2''),
                                  (''category'', JStr ''K'')]\<rparr>) demo_store
      = (\<lparr>status = 200,
          json = [(''success'', JBool True),
                  (''message'', JStr ''Article updated successfully'')]\<rparr>, demo_store)
   \<and> deleteArticle demo_env (anonymous\<lparr>params_id := JStr ''99''\<rparr>) demo_store
      = (\<lparr>status = 200,
          json = [(''success'', JBool True),
                  (''message'', JStr ''Article deleted successfully'')]\<rparr>, demo_store)"
  using update_delete_ignore_statement_result
     [of "anonymous\<lparr>params_id := JStr ''99'',
                    body := JObj [(''title'', JStr ''T2''), (''content'', JStr ''C2''),
                                  (''category'', JStr ''K'')]\<rparr>" demo_env demo_store]
     update_delete_ignore_statement_result
     [of "anonymous\<lparr>params_id := JStr ''99''\<rparr>" demo_env demo_store]
  by (simp add: demo_simps updateArticle_def updateArticle_try_def deleteArticle_def
        deleteArticle_try_def catch_500_def)

end
